theory Spec2Isabelle
  imports Complex_Main
begin

section \<open>Tensors, batches and the state of model and optimizer\<close>

text \<open>
  The training script sequences calls into the tensor library; the library itself is
  outside the script. A tensor is a list of numbers, and every library routine the
  script calls is a field of the record \<open>substrate\<close>, so each theorem below holds for
  every model, loss module and optimizer update rule.
\<close>

type_synonym tensor = "real list"

datatype error = ValueError | TypeError | RuntimeError | KeyError string | AssertionError

text \<open>
  A batch is the tuple the data loader yields: \<open>(grids, labels)\<close> or
  \<open>(grids, labels, affinities)\<close>. A model call returns one tensor or a pair.
\<close>

datatype batch = Batch2 tensor tensor | Batch3 tensor tensor tensor

datatype model_out = Single tensor | Pair tensor tensor

text \<open>
  Every call into the library is recorded in order. \<open>Forward t g\<close> is a model call made
  with \<open>model.training = t\<close> and gradient tracking \<open>g\<close>.
\<close>

datatype call =
    Model_train
  | Model_eval
  | Zero_grad
  | Forward bool bool
  | Pose_loss
  | Affinity_loss
  | Backward
  | Clip_grad_norm real
  | Optimizer_step
  | No_grad_enter
  | No_grad_exit

record torch =
  params :: tensor
  grads :: tensor
  momenta :: tensor
  training_flag :: bool
  grad_enabled :: bool
  param_groups :: "real list"
  calls :: "call list"

record substrate =
  forward :: "tensor \<Rightarrow> bool \<Rightarrow> tensor \<Rightarrow> model_out"
  pose_loss :: "tensor \<Rightarrow> tensor \<Rightarrow> real"
  affinity_loss :: "tensor \<Rightarrow> tensor \<Rightarrow> real"
  autograd :: "tensor \<Rightarrow> batch \<Rightarrow> tensor"
  sgd :: "real list \<Rightarrow> tensor \<Rightarrow> tensor \<Rightarrow> tensor \<Rightarrow> tensor \<times> tensor"

subsection \<open>The library calls of one step\<close>

definition model_train :: "torch \<Rightarrow> torch" where
  "model_train w = w\<lparr>training_flag := True, calls := calls w @ [Model_train]\<rparr>"

definition model_eval :: "torch \<Rightarrow> torch" where
  "model_eval w = w\<lparr>training_flag := False, calls := calls w @ [Model_eval]\<rparr>"

definition zero_grad :: "torch \<Rightarrow> torch" where
  "zero_grad w = w\<lparr>grads := replicate (length (grads w)) 0, calls := calls w @ [Zero_grad]\<rparr>"

definition model_call :: "substrate \<Rightarrow> tensor \<Rightarrow> torch \<Rightarrow> model_out \<times> torch" where
  "model_call S grids w =
     (forward S (params w) (training_flag w) grids,
      w\<lparr>calls := calls w @ [Forward (training_flag w) (grad_enabled w)]\<rparr>)"

definition call_pose_loss :: "substrate \<Rightarrow> tensor \<Rightarrow> tensor \<Rightarrow> torch \<Rightarrow> real \<times> torch" where
  "call_pose_loss S pose_log labels w =
     (pose_loss S pose_log labels, w\<lparr>calls := calls w @ [Pose_loss]\<rparr>)"

definition call_affinity_loss :: "substrate \<Rightarrow> tensor \<Rightarrow> tensor \<Rightarrow> torch \<Rightarrow> real \<times> torch" where
  "call_affinity_loss S affinities_pred affinities w =
     (affinity_loss S affinities_pred affinities, w\<lparr>calls := calls w @ [Affinity_loss]\<rparr>)"

text \<open>\<open>loss.backward()\<close> adds the gradient of the step's loss to the stored gradients.\<close>

definition backward :: "substrate \<Rightarrow> batch \<Rightarrow> torch \<Rightarrow> torch" where
  "backward S b w =
     w\<lparr>grads := map2 (+) (grads w) (autograd S (params w) b), calls := calls w @ [Backward]\<rparr>"

text \<open>
  Modelled from the spec: clipping the gradient norm (\<open>clip_grad_norm_\<close>) belongs to the
  tensor library, which is not part of this source. The spec: the norm of the gradient,
  not the value of each element, is clipped to the configured threshold: a gradient whose
  norm exceeds the threshold is scaled by threshold / norm, any other gradient is left as
  it is.
\<close>

definition l2_norm :: "tensor \<Rightarrow> real" where
  "l2_norm g = sqrt (sum_list (map (\<lambda>x. x * x) g))"

definition clip_by_norm :: "real \<Rightarrow> tensor \<Rightarrow> tensor" where
  "clip_by_norm c g = (if c < l2_norm g then map (\<lambda>x. x * (c / l2_norm g)) g else g)"

definition clip_grad_norm :: "real \<Rightarrow> torch \<Rightarrow> torch" where
  "clip_grad_norm c w =
     w\<lparr>grads := clip_by_norm c (grads w), calls := calls w @ [Clip_grad_norm c]\<rparr>"

definition optimizer_step :: "substrate \<Rightarrow> torch \<Rightarrow> torch" where
  "optimizer_step S w =
     (let (p, m) = sgd S (param_groups w) (params w) (grads w) (momenta w)
      in w\<lparr>params := p, momenta := m, calls := calls w @ [Optimizer_step]\<rparr>)"

definition no_grad_enter :: "torch \<Rightarrow> torch" where
  "no_grad_enter w = w\<lparr>grad_enabled := False, calls := calls w @ [No_grad_enter]\<rparr>"

definition no_grad_exit :: "bool \<Rightarrow> torch \<Rightarrow> torch" where
  "no_grad_exit prev w = w\<lparr>grad_enabled := prev, calls := calls w @ [No_grad_exit]\<rparr>"

section \<open>Training step\<close>

text \<open>
  \<open>_train_step_pose\<close>: the step returns the loss (or the exception raised) and the state
  it leaves. Unpacking a three-element batch into two names raises \<open>ValueError\<close>; the
  loss module rejects a pair of tensors with \<open>RuntimeError\<close>.
\<close>

definition train_step_pose ::
  "substrate \<Rightarrow> real \<Rightarrow> batch \<Rightarrow> torch \<Rightarrow> (error + real) \<times> torch" where
  "train_step_pose S clip_gradients b w0 =
     (let w1 = model_train w0;
          w2 = zero_grad w1
      in case b of
           Batch3 _ _ _ \<Rightarrow> (Inl ValueError, w2)
         | Batch2 grids labels \<Rightarrow>
             (let (out, w3) = model_call S grids w2
              in case out of
                   Pair _ _ \<Rightarrow> (Inl RuntimeError, w3)
                 | Single pose_log \<Rightarrow>
                     (let (loss, w4) = call_pose_loss S pose_log labels w3;
                          w5 = backward S b w4;
                          w6 = clip_grad_norm clip_gradients w5;
                          w7 = optimizer_step S w6
                      in (Inr loss, w7))))"

text \<open>
  \<open>pose_log, affinities_pred = model(grids)\<close>: a pair is taken apart; a single tensor
  is unpacked along its first dimension, which succeeds when it has exactly two rows and
  raises \<open>ValueError\<close> otherwise.
\<close>

definition unpack2 :: "model_out \<Rightarrow> error + tensor \<times> tensor" where
  "unpack2 out =
     (case out of
        Pair a b \<Rightarrow> Inr (a, b)
      | Single t \<Rightarrow> (case t of [x, y] \<Rightarrow> Inr ([x], [y]) | _ \<Rightarrow> Inl ValueError))"

text \<open>
  \<open>_train_step_pose_and_affinity\<close>: the loss is the value of the pose loss module plus
  the value of the affinity loss module.
\<close>

definition train_step_pose_and_affinity ::
  "substrate \<Rightarrow> real \<Rightarrow> batch \<Rightarrow> torch \<Rightarrow> (error + real) \<times> torch" where
  "train_step_pose_and_affinity S clip_gradients b w0 =
     (let w1 = model_train w0;
          w2 = zero_grad w1
      in case b of
           Batch2 _ _ \<Rightarrow> (Inl ValueError, w2)
         | Batch3 grids labels affinities \<Rightarrow>
             (let (out, w3) = model_call S grids w2
              in case unpack2 out of
                   Inl e \<Rightarrow> (Inl e, w3)
                 | Inr (pose_log, affinities_pred) \<Rightarrow>
                     (let (pl, w4) = call_pose_loss S pose_log labels w3;
                          (al, w5) = call_affinity_loss S affinities_pred affinities w4;
                          loss = pl + al;
                          w6 = backward S b w5;
                          w7 = clip_grad_norm clip_gradients w6;
                          w8 = optimizer_step S w7
                      in (Inr loss, w8))))"

text \<open>\<open>_setup_trainer\<close> picks the step by whether an affinity loss module was given.\<close>

definition setup_trainer ::
  "substrate \<Rightarrow> bool \<Rightarrow> real \<Rightarrow> batch \<Rightarrow> torch \<Rightarrow> (error + real) \<times> torch" where
  "setup_trainer S has_affinity_loss clip_gradients =
     (if has_affinity_loss then train_step_pose_and_affinity S clip_gradients
      else train_step_pose S clip_gradients)"

section \<open>Evaluation step\<close>

text \<open>
  The record an evaluation step returns is a dictionary from field name to value.
  \<open>torch.no_grad()\<close> is a context manager: it restores the previous gradient mode when
  the block is left, also by an exception.
\<close>

type_synonym step_output = "string \<rightharpoonup> model_out"

definition evaluation_step_pose_and_affinity ::
  "substrate \<Rightarrow> batch \<Rightarrow> torch \<Rightarrow> (error + step_output) \<times> torch" where
  "evaluation_step_pose_and_affinity S b w0 =
     (let w1 = model_eval w0;
          prev = grad_enabled w1;
          w2 = no_grad_enter w1
      in case b of
           Batch2 _ _ \<Rightarrow> (Inl ValueError, no_grad_exit prev w2)
         | Batch3 grids labels affinities \<Rightarrow>
             (let (out, w3) = model_call S grids w2
              in case unpack2 out of
                   Inl e \<Rightarrow> (Inl e, no_grad_exit prev w3)
                 | Inr (pose_log, affinities_pred) \<Rightarrow>
                     (Inr [''pose_log'' \<mapsto> Single pose_log,
                           ''affinities_pred'' \<mapsto> Single affinities_pred,
                           ''labels'' \<mapsto> Single labels,
                           ''affinities'' \<mapsto> Single affinities],
                      no_grad_exit prev w3)))"

definition evaluation_step_pose ::
  "substrate \<Rightarrow> batch \<Rightarrow> torch \<Rightarrow> (error + step_output) \<times> torch" where
  "evaluation_step_pose S b w0 =
     (let w1 = model_eval w0;
          prev = grad_enabled w1;
          w2 = no_grad_enter w1
      in case b of
           Batch3 _ _ _ \<Rightarrow> (Inl ValueError, no_grad_exit prev w2)
         | Batch2 grids labels \<Rightarrow>
             (let (pose_log, w3) = model_call S grids w2
              in (Inr [''pose_log'' \<mapsto> pose_log, ''labels'' \<mapsto> Single labels],
                  no_grad_exit prev w3)))"

text \<open>\<open>_setup_evaluator\<close> picks the step by the flag \<open>affinity\<close>.\<close>

definition evaluation_step ::
  "substrate \<Rightarrow> bool \<Rightarrow> batch \<Rightarrow> torch \<Rightarrow> (error + step_output) \<times> torch" where
  "evaluation_step S affinity =
     (if affinity then evaluation_step_pose_and_affinity S else evaluation_step_pose S)"

section \<open>Evaluator engine and metric registry\<close>

text \<open>
  A metric accumulator: its state after a reset, how it consumes a step output, and the
  value it reports.
\<close>

record metric =
  m_init :: tensor
  m_consume :: "step_output \<Rightarrow> tensor \<Rightarrow> tensor"
  m_value :: "tensor \<Rightarrow> real"

record evaluator =
  attached :: "(string \<times> metric) list"
  accs :: "tensor list"
  ev_metrics :: "(string \<times> real) list"

text \<open>\<open>_setup_evaluator\<close> attaches every metric of the registry under its name.\<close>

definition setup_evaluator :: "(string \<times> metric) list \<Rightarrow> evaluator" where
  "setup_evaluator ms = \<lparr>attached = ms, accs = map (\<lambda>(n, m). m_init m) ms, ev_metrics = []\<rparr>"

definition evaluator_reset :: "evaluator \<Rightarrow> evaluator" where
  "evaluator_reset ev = ev\<lparr>accs := map (\<lambda>(n, m). m_init m) (attached ev), ev_metrics := []\<rparr>"

definition evaluator_update :: "step_output \<Rightarrow> evaluator \<Rightarrow> evaluator" where
  "evaluator_update out ev =
     ev\<lparr>accs := map2 (\<lambda>(n, m) a. m_consume m out a) (attached ev) (accs ev)\<rparr>"

definition evaluator_complete :: "evaluator \<Rightarrow> evaluator" where
  "evaluator_complete ev =
     ev\<lparr>ev_metrics := map2 (\<lambda>(n, m) a. (n, m_value m a)) (attached ev) (accs ev)\<rparr>"

fun evaluator_batches ::
  "substrate \<Rightarrow> bool \<Rightarrow> batch list \<Rightarrow> evaluator \<Rightarrow> torch \<Rightarrow> error option \<times> evaluator \<times> torch" where
  "evaluator_batches S affinity [] ev w = (None, ev, w)"
| "evaluator_batches S affinity (b # bs) ev w =
     (case evaluation_step S affinity b w of
        (Inl e, w') \<Rightarrow> (Some e, ev, w')
      | (Inr out, w') \<Rightarrow> evaluator_batches S affinity bs (evaluator_update out ev) w')"

text \<open>
  Modelled from the spec: the evaluator engine's pass (\<open>evaluator.run\<close>) belongs to the
  engine library, which is not part of this source. The spec: the engine runs exactly one
  full pass over the supplied dataset per invocation, resets its metrics mapping at the
  start of each pass, invokes the evaluation step for each batch and forwards the record
  to every attached metric accumulator; after the pass the metrics mapping holds the
  final aggregated value of every attached metric.
\<close>

definition evaluator_run ::
  "substrate \<Rightarrow> bool \<Rightarrow> batch list \<Rightarrow> evaluator \<Rightarrow> torch \<Rightarrow> error option \<times> evaluator \<times> torch" where
  "evaluator_run S affinity data ev w =
     (case evaluator_batches S affinity data (evaluator_reset ev) w of
        (Some e, ev', w') \<Rightarrow> (Some e, ev', w')
      | (None, ev', w') \<Rightarrow> (None, evaluator_complete ev', w'))"

section \<open>Adaptive learning rate\<close>

datatype plateau_mode = Min_mode | Max_mode

record plateau =
  pl_mode :: plateau_mode
  pl_factor :: real
  pl_patience :: int
  pl_min_lr :: real
  pl_best :: "real option"
  pl_num_bad :: nat

definition is_better :: "plateau_mode \<Rightarrow> real \<Rightarrow> real option \<Rightarrow> bool" where
  "is_better m a best =
     (case best of
        None \<Rightarrow> True
      | Some b \<Rightarrow> (case m of Max_mode \<Rightarrow> b < a | Min_mode \<Rightarrow> a < b))"

text \<open>
  Modelled from the spec: the plateau detector (\<open>ReduceLROnPlateau.step\<close>) belongs to the
  tensor library, which is not part of this source. The spec: the detector reduces the
  learning rate by a configured factor once the monitored quantity fails to improve for
  more than the configured patience of consecutive checks, floored at a configured
  minimum rate; improvement is judged in the configured comparison mode.
\<close>

definition plateau_step :: "real \<Rightarrow> plateau \<Rightarrow> real list \<Rightarrow> plateau \<times> real list" where
  "plateau_step current sch lrs =
     (let sch1 = (if is_better (pl_mode sch) current (pl_best sch)
                  then sch\<lparr>pl_best := Some current, pl_num_bad := 0\<rparr>
                  else sch\<lparr>pl_num_bad := pl_num_bad sch + 1\<rparr>)
      in if pl_patience sch1 < int (pl_num_bad sch1)
         then (sch1\<lparr>pl_num_bad := 0\<rparr>,
               map (\<lambda>lr. max (lr * pl_factor sch1) (pl_min_lr sch1)) lrs)
         else (sch1, lrs))"

section \<open>The run\<close>

record args =
  affinity_pos :: "int option"
  testfile :: "string option"
  base_lr :: real
  iterations :: int
  lr_dynamic :: bool
  lr_patience :: int
  lr_reduce :: real
  lr_min :: real
  clip_gradients :: real
  test_every :: int
  checkpoint_every :: int
  num_checkpoints :: int

datatype artifact = Checkpoint_file nat | Other_file string

datatype log_line = Results string nat "(string \<times> real) list" | Learning_rate real

record world =
  torch_st :: torch
  evaluator_st :: evaluator
  scheduler_st :: plateau
  trainer_epoch :: nat
  metrics_train :: "string \<Rightarrow> real list"
  metrics_test :: "string \<Rightarrow> real list"
  printed :: "log_line list"
  saved :: "nat list"
  out_dir :: "artifact list"

text \<open>
  The scheduler as \<open>training\<close> constructs it: comparison mode \<open>max\<close>, the other settings
  from the command line.
\<close>

definition torch_scheduler :: "args \<Rightarrow> plateau" where
  "torch_scheduler a =
     \<lparr>pl_mode = Max_mode, pl_factor = lr_reduce a, pl_patience = lr_patience a,
      pl_min_lr = lr_min a, pl_best = None, pl_num_bad = 0\<rparr>"

text \<open>
  The monitored quantity of \<open>log_training_results\<close>: the pose loss, plus the affinity
  loss unless looking it up raises \<open>KeyError\<close>.
\<close>

definition monitored_loss :: "(string \<times> real) list \<Rightarrow> error + real" where
  "monitored_loss mts =
     (case map_of mts ''Loss (pose)'' of
        None \<Rightarrow> Inl (KeyError ''Loss (pose)'')
      | Some loss \<Rightarrow>
          (case map_of mts ''Loss (affinity)'' of
             None \<Rightarrow> Inr loss
           | Some a \<Rightarrow> Inr (loss + a)))"

definition append_metrics ::
  "nat \<Rightarrow> (string \<times> real) list \<Rightarrow> (string \<Rightarrow> real list) \<Rightarrow> (string \<Rightarrow> real list)" where
  "append_metrics ep mts h =
     fold (\<lambda>(key, v) h'. h'(key := h' key @ [v])) mts
       (h(''Epoch'' := h ''Epoch'' @ [real ep]))"

text \<open>
  \<open>log_training_results\<close>, the handler of every \<open>test_every\<close>-th completed epoch: an
  evaluation pass over the training set, the log, the history and, in adaptive-rate
  mode, the scheduler step followed by the assertion on the parameter groups.
\<close>

definition log_training_results ::
  "substrate \<Rightarrow> args \<Rightarrow> batch list \<Rightarrow> world \<Rightarrow> error option \<times> world" where
  "log_training_results S a train_loader w =
     (case evaluator_run S (affinity_pos a \<noteq> None) train_loader (evaluator_st w) (torch_st w) of
        (Some e, ev, t) \<Rightarrow> (Some e, w\<lparr>torch_st := t, evaluator_st := ev\<rparr>)
      | (None, ev, t) \<Rightarrow>
          (let mts = ev_metrics ev;
               w1 = w\<lparr>torch_st := t, evaluator_st := ev,
                      printed := printed w @ [Results ''Train Results'' (trainer_epoch w) mts],
                      metrics_train := append_metrics (trainer_epoch w) mts (metrics_train w)\<rparr>
           in if lr_dynamic a then
                (case monitored_loss mts of
                   Inl e \<Rightarrow> (Some e, w1)
                 | Inr loss \<Rightarrow>
                     (let (sch, lrs) = plateau_step loss (scheduler_st w1) (param_groups t);
                          w2 = w1\<lparr>scheduler_st := sch, torch_st := t\<lparr>param_groups := lrs\<rparr>\<rparr>
                      in if length lrs \<noteq> 1 then (Some AssertionError, w2)
                         else (None, w2\<lparr>printed := printed w2 @ [Learning_rate (lrs ! 0)]\<rparr>)))
              else (None, w1)))"

definition log_test_results ::
  "substrate \<Rightarrow> args \<Rightarrow> batch list \<Rightarrow> world \<Rightarrow> error option \<times> world" where
  "log_test_results S a test_loader w =
     (case evaluator_run S (affinity_pos a \<noteq> None) test_loader (evaluator_st w) (torch_st w) of
        (Some e, ev, t) \<Rightarrow> (Some e, w\<lparr>torch_st := t, evaluator_st := ev\<rparr>)
      | (None, ev, t) \<Rightarrow>
          (None, w\<lparr>torch_st := t, evaluator_st := ev,
                   printed := printed w @ [Results ''Test Results'' (trainer_epoch w) (ev_metrics ev)],
                   metrics_test :=
                     append_metrics (trainer_epoch w) (ev_metrics ev) (metrics_test w)\<rparr>))"

subsection \<open>Checkpoints\<close>

definition checkpoints_in :: "artifact list \<Rightarrow> nat list" where
  "checkpoints_in files = concat (map (\<lambda>f. case f of Checkpoint_file e \<Rightarrow> [e] | Other_file _ \<Rightarrow> []) files)"

text \<open>
  Modelled from the spec: constructing the checkpoint handler (\<open>Checkpoint\<close>) belongs to
  the engine library, which is not part of this source. The spec: the destination must
  not already contain checkpoints from a prior run; violation fails the run at startup.
\<close>

definition checkpoint_create :: "artifact list \<Rightarrow> error + nat list" where
  "checkpoint_create files = (if checkpoints_in files = [] then Inr [] else Inl ValueError)"

text \<open>
  Modelled from the spec: calling the checkpoint handler belongs to the engine library,
  which is not part of this source. The spec: it persists the current model and
  optimizer state tagged by the current epoch number and maintains at most the configured
  retention count of the most recent snapshots, evicting the oldest beyond that count.
\<close>

definition checkpoint_call :: "nat \<Rightarrow> world \<Rightarrow> world" where
  "checkpoint_call n_saved w =
     (let e = trainer_epoch w;
          kept = saved w @ [e];
          files = filter (\<lambda>f. f \<noteq> Checkpoint_file e) (out_dir w) @ [Checkpoint_file e];
          evicted = take (length kept - n_saved) kept
      in w\<lparr>saved := drop (length kept - n_saved) kept,
           out_dir := filter (\<lambda>f. f \<notin> Checkpoint_file ` set evicted) files\<rparr>)"

subsection \<open>Trainer engine\<close>

text \<open>An event filter \<open>every=n\<close> lets every \<open>n\<close>-th completed epoch through.\<close>

definition fires :: "int \<Rightarrow> nat \<Rightarrow> bool" where
  "fires every ep = (0 < every \<and> int ep mod every = 0)"

fun run_batches ::
  "(batch \<Rightarrow> torch \<Rightarrow> (error + real) \<times> torch) \<Rightarrow> batch list \<Rightarrow> torch \<Rightarrow> error option \<times> torch" where
  "run_batches step [] t = (None, t)"
| "run_batches step (b # bs) t =
     (case step b t of
        (Inl e, t') \<Rightarrow> (Some e, t')
      | (Inr _, t') \<Rightarrow> run_batches step bs t')"

text \<open>
  The handlers of a completed epoch in the order \<open>training\<close> registers them: training
  results, test results (when a test file is given), checkpoint.
\<close>

definition epoch_completed ::
  "substrate \<Rightarrow> args \<Rightarrow> batch list \<Rightarrow> batch list \<Rightarrow> world \<Rightarrow> error option \<times> world" where
  "epoch_completed S a train_loader test_loader w0 =
     (case (if fires (test_every a) (trainer_epoch w0)
            then log_training_results S a train_loader w0 else (None, w0)) of
        (Some e, w1) \<Rightarrow> (Some e, w1)
      | (None, w1) \<Rightarrow>
          (case (if testfile a \<noteq> None \<and> fires (test_every a) (trainer_epoch w1)
                 then log_test_results S a test_loader w1 else (None, w1)) of
             (Some e, w2) \<Rightarrow> (Some e, w2)
           | (None, w2) \<Rightarrow>
               (None, if fires (checkpoint_every a) (trainer_epoch w2)
                      then checkpoint_call (nat (num_checkpoints a)) w2 else w2)))"

text \<open>
  Modelled from the spec: the trainer engine's loop (\<open>trainer.run\<close>) belongs to the engine
  library, which is not part of this source. The spec: for each epoch up to the configured
  maximum the engine delegates every batch to the training step and then fires the
  handlers of the completed epoch in registration order, synchronously; an unrecovered
  failure ends the run.
\<close>

fun trainer_run ::
  "substrate \<Rightarrow> args \<Rightarrow> batch list \<Rightarrow> batch list \<Rightarrow> nat \<Rightarrow> world \<Rightarrow> error option \<times> world" where
  "trainer_run S a train_loader test_loader 0 w = (None, w)"
| "trainer_run S a train_loader test_loader (Suc n) w =
     (let w0 = w\<lparr>trainer_epoch := Suc (trainer_epoch w)\<rparr>
      in case run_batches (setup_trainer S (affinity_pos a \<noteq> None) (clip_gradients a))
                train_loader (torch_st w0) of
           (Some e, t) \<Rightarrow> (Some e, w0\<lparr>torch_st := t\<rparr>)
         | (None, t) \<Rightarrow>
             (case epoch_completed S a train_loader test_loader (w0\<lparr>torch_st := t\<rparr>) of
                (Some e, w1) \<Rightarrow> (Some e, w1)
              | (None, w1) \<Rightarrow> trainer_run S a train_loader test_loader n w1))"

subsection \<open>The main function\<close>

text \<open>
  What \<open>training\<close> receives from outside the script: the batches of the two loaders and
  their dimensions, the initial parameters of the model, the metric registry and the
  contents of the output directory.
\<close>

record env =
  train_batches :: "batch list"
  train_dims :: "nat list"
  test_batches :: "batch list"
  test_dims :: "nat list"
  init_params :: tensor
  allmetrics :: "(string \<times> metric) list"
  files0 :: "artifact list"

definition add_file :: "string \<Rightarrow> artifact list \<Rightarrow> artifact list" where
  "add_file name files = filter (\<lambda>f. f \<noteq> Other_file name) files @ [Other_file name]"

definition training :: "substrate \<Rightarrow> args \<Rightarrow> env \<Rightarrow> error option \<times> world" where
  "training S a E =
     (let w0 = \<lparr>torch_st =
                  \<lparr>params = init_params E,
                   grads = replicate (length (init_params E)) 0,
                   momenta = replicate (length (init_params E)) 0,
                   training_flag = True, grad_enabled = True,
                   param_groups = [base_lr a], calls = []\<rparr>,
                evaluator_st = setup_evaluator (allmetrics E),
                scheduler_st = torch_scheduler a,
                trainer_epoch = 0,
                metrics_train = (\<lambda>_. []),
                metrics_test = (\<lambda>_. []),
                printed = [],
                saved = [],
                out_dir = add_file ''training.log'' (files0 E)\<rparr>
      in if testfile a \<noteq> None \<and> test_dims E \<noteq> train_dims E then (Some AssertionError, w0)
         else
           (case checkpoint_create (out_dir w0) of
              Inl e \<Rightarrow> (Some e, w0)
            | Inr s \<Rightarrow>
                (case trainer_run S a (train_batches E) (test_batches E) (nat (iterations a))
                        (w0\<lparr>saved := s\<rparr>) of
                   (Some e, w1) \<Rightarrow> (Some e, w1)
                 | (None, w1) \<Rightarrow>
                     (let w2 = w1\<lparr>out_dir := add_file ''metrics_train.csv'' (out_dir w1)\<rparr>
                      in (None, if testfile a \<noteq> None
                                then w2\<lparr>out_dir := add_file ''metrics_test.csv'' (out_dir w2)\<rparr>
                                else w2)))))"

section \<open>The gradient of one training step\<close>

text \<open>
  The gradient the optimizer update of a training step receives: the stale gradients
  zeroed, the gradient of the batch's loss at the parameters before the update added, and
  the sum clipped by norm.
\<close>

definition step_gradient :: "substrate \<Rightarrow> real \<Rightarrow> batch \<Rightarrow> torch \<Rightarrow> tensor" where
  "step_gradient S c b w =
     clip_by_norm c (map2 (+) (replicate (length (grads w)) 0) (autograd S (params w) b))"

section \<open>Well-formed inputs and the calls of an evaluation step\<close>

text \<open>
  The loader yields three-element batches exactly when an affinity column is configured,
  and the model returns a pair exactly when it was built for affinity prediction.
\<close>

definition batch_for :: "bool \<Rightarrow> batch \<Rightarrow> bool" where
  "batch_for affinity b = (case b of Batch2 _ _ \<Rightarrow> \<not> affinity | Batch3 _ _ _ \<Rightarrow> affinity)"

definition grids_of :: "batch \<Rightarrow> tensor" where
  "grids_of b = (case b of Batch2 g _ \<Rightarrow> g | Batch3 g _ _ \<Rightarrow> g)"

definition model_for :: "bool \<Rightarrow> model_out \<Rightarrow> bool" where
  "model_for affinity out = (case out of Single _ \<Rightarrow> \<not> affinity | Pair _ _ \<Rightarrow> affinity)"

text \<open>The library calls that leave parameters, gradients and optimizer state alone.\<close>

definition inference_calls :: "call set" where
  "inference_calls = {Model_eval, No_grad_enter, Forward False False, No_grad_exit}"

text \<open>The calls one evaluation step makes, by task mode and batch shape.\<close>

definition eval_calls :: "bool \<Rightarrow> batch \<Rightarrow> call list" where
  "eval_calls affinity b =
     (case b of
        Batch2 _ _ \<Rightarrow> if affinity then [Model_eval, No_grad_enter, No_grad_exit]
                      else [Model_eval, No_grad_enter, Forward False False, No_grad_exit]
      | Batch3 _ _ _ \<Rightarrow> if affinity then [Model_eval, No_grad_enter, Forward False False, No_grad_exit]
                        else [Model_eval, No_grad_enter, No_grad_exit])"

section \<open>Sequences of cadence checks\<close>

text \<open>
  The scheduler state and the learning rates after a sequence of cadence checks that fed
  the given monitored values, and the rates \<open>training\<close>'s settings reduce to.
\<close>

fun plateau_steps :: "real list \<Rightarrow> plateau \<Rightarrow> real list \<Rightarrow> plateau \<times> real list" where
  "plateau_steps [] sch lrs = (sch, lrs)"
| "plateau_steps (m # ms) sch lrs =
     (case plateau_step m sch lrs of (sch', lrs') \<Rightarrow> plateau_steps ms sch' lrs')"

definition reduced :: "args \<Rightarrow> real list \<Rightarrow> real list" where
  "reduced a lrs = map (\<lambda>lr. max (lr * lr_reduce a) (lr_min a)) lrs"

section \<open>A small concrete instance\<close>

text \<open>
  One-parameter models on which the theorems below are instantiated: the flag says
  whether the model returns a pair (pose and affinity) or a single tensor.
\<close>

definition example_torch :: torch where
  "example_torch =
     \<lparr>params = [1], grads = [0], momenta = [0], training_flag = False, grad_enabled = True,
      param_groups = [1 / 100], calls = []\<rparr>"

definition example_torch2 :: torch where
  "example_torch2 =
     \<lparr>params = [3, 4], grads = [7, 7], momenta = [0, 0], training_flag = False,
      grad_enabled = True, param_groups = [1 / 100], calls = []\<rparr>"

definition example_substrate :: "bool \<Rightarrow> substrate" where
  "example_substrate affinity =
     \<lparr>forward = (\<lambda>p t g. if affinity then Pair (map2 (*) p g) p else Single (map2 (*) p g)),
      pose_loss = (\<lambda>x y. sum_list (map2 (-) x y)),
      affinity_loss = (\<lambda>x y. sum_list (map2 (-) x y)),
      autograd = (\<lambda>p b. p),
      sgd = (\<lambda>lrs p g m. (map2 (-) p g, m))\<rparr>"

definition example_metric :: metric where
  "example_metric =
     \<lparr>m_init = [0],
      m_consume = (\<lambda>out acc. map (\<lambda>x. x + 1) acc),
      m_value = sum_list\<rparr>"

definition example_evaluator :: evaluator where
  "example_evaluator = setup_evaluator [(''Batches'', example_metric)]"

definition example_args :: args where
  "example_args =
     \<lparr>affinity_pos = None, testfile = None, base_lr = 1 / 100, iterations = 2,
      lr_dynamic = False, lr_patience = 1, lr_reduce = 1 / 10, lr_min = 1 / 1000,
      clip_gradients = 10, test_every = 1, checkpoint_every = 1, num_checkpoints = 1\<rparr>"

definition example_env :: env where
  "example_env =
     \<lparr>train_batches = [Batch2 [2] [1]], train_dims = [1], test_batches = [], test_dims = [1],
      init_params = [1], allmetrics = [(''Loss (pose)'', example_metric)], files0 = []\<rparr>"


text \<open>
  A loss metric that adds up the entries of the pose output over the batches, the
  settings of a run in adaptive-rate mode with patience zero, and the state of such a
  run at a cadence check after the scheduler has seen the given loss as its best value.
\<close>

definition example_loss_metric :: metric where
  "example_loss_metric =
     \<lparr>m_init = [0],
      m_consume = (\<lambda>out acc. case out ''pose_log'' of
                                Some (Single t) \<Rightarrow> map (\<lambda>x. x + sum_list t) acc
                              | _ \<Rightarrow> acc),
      m_value = sum_list\<rparr>"

definition adaptive_args :: args where
  "adaptive_args = example_args\<lparr>lr_dynamic := True, lr_patience := 0\<rparr>"

definition checked_world :: "real \<Rightarrow> world" where
  "checked_world best =
     \<lparr>torch_st = example_torch,
      evaluator_st = setup_evaluator [(''Loss (pose)'', example_loss_metric)],
      scheduler_st = (torch_scheduler adaptive_args)\<lparr>pl_best := Some best, pl_num_bad := 0\<rparr>,
      trainer_epoch = 2,
      metrics_train = (\<lambda>_. []), metrics_test = (\<lambda>_. []), printed = [],
      saved = [], out_dir = []\<rparr>"

section \<open>Properties of the training step\<close>

lemmas train_defs = train_step_pose_def train_step_pose_and_affinity_def model_train_def
  zero_grad_def model_call_def call_pose_loss_def call_affinity_loss_def backward_def
  clip_grad_norm_def optimizer_step_def unpack2_def

text \<open>
  C1. In dual-task mode the loss returned by one training step is the pose loss of the
  batch plus the affinity loss of the batch, each computed by its own loss module on the
  model's outputs for that batch, added with no weight or scale.
\<close>

theorem train_step_loss_is_unweighted_sum:
  assumes "forward S (params w) True grids = Pair pose_log affinities_pred"
  shows "fst (train_step_pose_and_affinity S c (Batch3 grids labels affinities) w) =
           Inr (pose_loss S pose_log labels + affinity_loss S affinities_pred affinities)"
  using assms
  by (simp add: train_step_pose_and_affinity_def model_train_def zero_grad_def model_call_def
      call_pose_loss_def call_affinity_loss_def unpack2_def Let_def split_def)

theorem train_step_loss_is_unweighted_sum_witness:
  "forward (example_substrate True) (params example_torch) True [2] = Pair [2] [1] \<and>
   fst (train_step_pose_and_affinity (example_substrate True) 10 (Batch3 [2] [1] [3])
          example_torch) =
     Inr (pose_loss (example_substrate True) [2] [1] +
          affinity_loss (example_substrate True) [1] [3])"
  using train_step_loss_is_unweighted_sum
          [of "example_substrate True" example_torch "[2]" "[2]" "[1]" 10 "[1]" "[3]"]
  by (simp add: example_substrate_def example_torch_def)

subsection \<open>Clipping by norm\<close>

lemma sum_list_scaled:
  "sum_list (map (\<lambda>x. (x * k) * (x * k)) g) = (k * k) * sum_list (map (\<lambda>x. x * x) g)"
  for k :: real
  by (induction g) (simp_all add: algebra_simps)

lemma l2_norm_scaled: "l2_norm (map (\<lambda>x. x * k) g) = \<bar>k\<bar> * l2_norm g"
  by (simp add: l2_norm_def comp_def sum_list_scaled real_sqrt_mult)

lemma l2_norm_nonneg: "0 \<le> l2_norm g"
proof -
  have "0 \<le> sum_list (map (\<lambda>x. x * x) g)"
    by (induction g) simp_all
  then show ?thesis by (simp add: l2_norm_def)
qed

lemma clip_by_norm_bound:
  assumes "0 \<le> c"
  shows "l2_norm (clip_by_norm c g) = min c (l2_norm g)"
proof (cases "c < l2_norm g")
  case True
  with assms have p: "0 < l2_norm g" by simp
  have "clip_by_norm c g = map (\<lambda>x. x * (c / l2_norm g)) g"
    using True by (simp only: clip_by_norm_def if_True)
  then have "l2_norm (clip_by_norm c g) = \<bar>c / l2_norm g\<bar> * l2_norm g"
    by (simp only: l2_norm_scaled)
  also have "\<dots> = c" using assms p by simp
  finally show ?thesis using True by simp
next
  case False
  then show ?thesis by (simp add: clip_by_norm_def)
qed

text \<open>
  C4. In both variants one training step leaves exactly the state that its effects
  produce in this order: the model is switched to training mode, the accumulated gradients
  are zeroed, the forward pass and the loss run on the parameters as they were, the
  backward pass adds the batch's gradient to the zeroed gradients, the gradient is clipped
  by its norm to the threshold (for a threshold that is not negative the norm of the
  clipped gradient is the smaller of the threshold and the norm before), and the
  optimizer update receives the clipped gradient and the parameters as they were. The
  library calls are recorded in the same order.
\<close>

theorem train_step_order_of_effects:
  "(forward S (params w) True grids = Single pose_log \<longrightarrow>
      snd (train_step_pose S c (Batch2 grids labels) w) =
        w\<lparr>training_flag := True,
          grads := step_gradient S c (Batch2 grids labels) w,
          params := fst (sgd S (param_groups w) (params w)
                           (step_gradient S c (Batch2 grids labels) w) (momenta w)),
          momenta := snd (sgd S (param_groups w) (params w)
                            (step_gradient S c (Batch2 grids labels) w) (momenta w)),
          calls := calls w @ [Model_train, Zero_grad, Forward True (grad_enabled w), Pose_loss,
                              Backward, Clip_grad_norm c, Optimizer_step]\<rparr>) \<and>
   (forward S (params w) True grids = Pair pose_log affinities_pred \<longrightarrow>
      snd (train_step_pose_and_affinity S c (Batch3 grids labels affinities) w) =
        w\<lparr>training_flag := True,
          grads := step_gradient S c (Batch3 grids labels affinities) w,
          params := fst (sgd S (param_groups w) (params w)
                           (step_gradient S c (Batch3 grids labels affinities) w) (momenta w)),
          momenta := snd (sgd S (param_groups w) (params w)
                            (step_gradient S c (Batch3 grids labels affinities) w) (momenta w)),
          calls := calls w @ [Model_train, Zero_grad, Forward True (grad_enabled w), Pose_loss,
                              Affinity_loss, Backward, Clip_grad_norm c, Optimizer_step]\<rparr>) \<and>
   (0 \<le> c \<longrightarrow>
      l2_norm (step_gradient S c b w) =
        min c (l2_norm (map2 (+) (replicate (length (grads w)) 0) (autograd S (params w) b))))"
proof (intro conjI impI)
  assume "forward S (params w) True grids = Single pose_log"
  then show "snd (train_step_pose S c (Batch2 grids labels) w) =
        w\<lparr>training_flag := True,
          grads := step_gradient S c (Batch2 grids labels) w,
          params := fst (sgd S (param_groups w) (params w)
                           (step_gradient S c (Batch2 grids labels) w) (momenta w)),
          momenta := snd (sgd S (param_groups w) (params w)
                            (step_gradient S c (Batch2 grids labels) w) (momenta w)),
          calls := calls w @ [Model_train, Zero_grad, Forward True (grad_enabled w), Pose_loss,
                              Backward, Clip_grad_norm c, Optimizer_step]\<rparr>"
    by (simp add: train_defs step_gradient_def Let_def split_def)
next
  assume "forward S (params w) True grids = Pair pose_log affinities_pred"
  then show "snd (train_step_pose_and_affinity S c (Batch3 grids labels affinities) w) =
        w\<lparr>training_flag := True,
          grads := step_gradient S c (Batch3 grids labels affinities) w,
          params := fst (sgd S (param_groups w) (params w)
                           (step_gradient S c (Batch3 grids labels affinities) w) (momenta w)),
          momenta := snd (sgd S (param_groups w) (params w)
                            (step_gradient S c (Batch3 grids labels affinities) w) (momenta w)),
          calls := calls w @ [Model_train, Zero_grad, Forward True (grad_enabled w), Pose_loss,
                              Affinity_loss, Backward, Clip_grad_norm c, Optimizer_step]\<rparr>"
    by (simp add: train_defs step_gradient_def Let_def split_def)
next
  assume "0 \<le> c"
  then show "l2_norm (step_gradient S c b w) =
        min c (l2_norm (map2 (+) (replicate (length (grads w)) 0) (autograd S (params w) b)))"
    by (simp add: step_gradient_def clip_by_norm_bound)
qed

lemma l2_norm_3_4: "l2_norm [3, 4] = 5"
proof -
  have "sqrt 25 = 5" by (rule real_sqrt_unique) simp_all
  then show ?thesis by (simp add: l2_norm_def)
qed

lemma example_step_gradient:
  "step_gradient (example_substrate affinity) 1 b example_torch2 = [3 / 5, 4 / 5]"
  by (simp add: step_gradient_def example_substrate_def example_torch2_def clip_by_norm_def
      l2_norm_3_4)

theorem train_step_order_of_effects_witness:
  "forward (example_substrate False) (params example_torch2) True [2, 2] = Single [6, 8] \<and>
   snd (train_step_pose (example_substrate False) 1 (Batch2 [2, 2] [1]) example_torch2) =
     \<lparr>params = [12 / 5, 16 / 5], grads = [3 / 5, 4 / 5], momenta = [0, 0],
      training_flag = True, grad_enabled = True, param_groups = [1 / 100],
      calls = [Model_train, Zero_grad, Forward True True, Pose_loss, Backward,
               Clip_grad_norm 1, Optimizer_step]\<rparr> \<and>
   forward (example_substrate True) (params example_torch2) True [2, 2] =
     Pair [6, 8] [3, 4] \<and>
   snd (train_step_pose_and_affinity (example_substrate True) 1 (Batch3 [2, 2] [1] [3])
          example_torch2) =
     \<lparr>params = [12 / 5, 16 / 5], grads = [3 / 5, 4 / 5], momenta = [0, 0],
      training_flag = True, grad_enabled = True, param_groups = [1 / 100],
      calls = [Model_train, Zero_grad, Forward True True, Pose_loss, Affinity_loss, Backward,
               Clip_grad_norm 1, Optimizer_step]\<rparr> \<and>
   (0 :: real) \<le> 1 \<and>
   l2_norm (step_gradient (example_substrate False) 1 (Batch2 [2, 2] [1]) example_torch2) = 1"
proof -
  have f: "forward (example_substrate False) (params example_torch2) True [2, 2] = Single [6, 8]"
    by (simp add: example_substrate_def example_torch2_def)
  have t: "forward (example_substrate True) (params example_torch2) True [2, 2] =
             Pair [6, 8] [3, 4]"
    by (simp add: example_substrate_def example_torch2_def)
  have n: "l2_norm (map2 (+) (replicate (length (grads example_torch2)) 0)
             (autograd (example_substrate False) (params example_torch2) (Batch2 [2, 2] [1]))) = 5"
    by (simp add: example_substrate_def example_torch2_def l2_norm_3_4)
  have p: "sgd (example_substrate affinity) (param_groups example_torch2) (params example_torch2)
             [3 / 5, 4 / 5] (momenta example_torch2) = ([12 / 5, 16 / 5], [0, 0])"
    for affinity
    by (simp add: example_substrate_def example_torch2_def)
  show ?thesis
    using f t n
      train_step_order_of_effects [where S = "example_substrate False" and w = example_torch2
        and grids = "[2, 2]" and pose_log = "[6, 8]" and c = 1 and labels = "[1]"
        and b = "Batch2 [2, 2] [1]"]
      train_step_order_of_effects [where S = "example_substrate True" and w = example_torch2
        and grids = "[2, 2]" and pose_log = "[6, 8]" and affinities_pred = "[3, 4]" and c = 1
        and labels = "[1]" and affinities = "[3]" and b = "Batch2 [2, 2] [1]"]
    by (simp add: example_step_gradient p) (simp add: example_torch2_def)
qed

section \<open>Properties of evaluation\<close>

lemmas eval_defs = evaluation_step_def evaluation_step_pose_def
  evaluation_step_pose_and_affinity_def model_eval_def no_grad_enter_def no_grad_exit_def
  model_call_def unpack2_def

lemma evaluation_step_frame:
  "params (snd (evaluation_step S affinity b w)) = params w \<and>
   grads (snd (evaluation_step S affinity b w)) = grads w \<and>
   momenta (snd (evaluation_step S affinity b w)) = momenta w \<and>
   param_groups (snd (evaluation_step S affinity b w)) = param_groups w \<and>
   grad_enabled (snd (evaluation_step S affinity b w)) = grad_enabled w"
  by (simp add: eval_defs Let_def split_def split: batch.splits model_out.splits list.splits)

lemma evaluation_step_calls:
  "calls (snd (evaluation_step S affinity b w)) = calls w @ eval_calls affinity b"
  by (simp add: eval_defs eval_calls_def Let_def split_def split: batch.splits model_out.splits list.splits)

lemma eval_calls_inference: "set (eval_calls affinity b) \<subseteq> inference_calls"
  by (simp add: eval_calls_def inference_calls_def split: batch.splits)

lemma evaluation_step_params_only:
  "params w = params w' \<Longrightarrow>
     fst (evaluation_step S affinity b w) = fst (evaluation_step S affinity b w')"
  by (simp add: eval_defs Let_def split_def split: batch.splits model_out.splits list.splits)

lemma evaluator_batches_frame:
  "params (snd (snd (evaluator_batches S affinity data ev w))) = params w \<and>
   grads (snd (snd (evaluator_batches S affinity data ev w))) = grads w \<and>
   momenta (snd (snd (evaluator_batches S affinity data ev w))) = momenta w \<and>
   param_groups (snd (snd (evaluator_batches S affinity data ev w))) = param_groups w \<and>
   grad_enabled (snd (snd (evaluator_batches S affinity data ev w))) = grad_enabled w"
proof (induction data arbitrary: ev w)
  case Nil
  show ?case by simp
next
  case (Cons b bs)
  obtain r w' where s: "evaluation_step S affinity b w = (r, w')"
    by (cases "evaluation_step S affinity b w")
  have f: "params w' = params w \<and> grads w' = grads w \<and> momenta w' = momenta w \<and>
           param_groups w' = param_groups w \<and> grad_enabled w' = grad_enabled w"
    using evaluation_step_frame [of S affinity b w] s by simp
  show ?case
  proof (cases r)
    case (Inl e)
    with s f show ?thesis by simp
  next
    case (Inr out)
    with s f Cons.IH [of "evaluator_update out ev" w'] show ?thesis by simp
  qed
qed

lemma evaluator_batches_calls:
  "\<exists>cs. calls (snd (snd (evaluator_batches S affinity data ev w))) = calls w @ cs \<and>
        set cs \<subseteq> inference_calls"
proof (induction data arbitrary: ev w)
  case Nil
  have "calls w = calls w @ [] \<and> set [] \<subseteq> inference_calls" by simp
  then show ?case unfolding evaluator_batches.simps snd_conv by (rule exI)
next
  case (Cons b bs)
  obtain r w' where s: "evaluation_step S affinity b w = (r, w')"
    by (cases "evaluation_step S affinity b w")
  have c: "calls w' = calls w @ eval_calls affinity b"
    using evaluation_step_calls [of S affinity b w] s by simp
  show ?case
  proof (cases r)
    case (Inl e)
    have "calls w' = calls w @ eval_calls affinity b \<and>
          set (eval_calls affinity b) \<subseteq> inference_calls"
      using c eval_calls_inference by simp
    then have "\<exists>cs. calls w' = calls w @ cs \<and> set cs \<subseteq> inference_calls"
      by (rule exI)
    with s Inl show ?thesis by simp
  next
    case (Inr out)
    let ?w'' = "snd (snd (evaluator_batches S affinity bs (evaluator_update out ev) w'))"
    from Cons.IH [of "evaluator_update out ev" w']
    obtain ds where d: "calls ?w'' = calls w' @ ds" "set ds \<subseteq> inference_calls"
      by blast
    have "calls ?w'' = calls w @ (eval_calls affinity b @ ds) \<and>
          set (eval_calls affinity b @ ds) \<subseteq> inference_calls"
      using c d eval_calls_inference [of affinity b] by simp
    then have "\<exists>cs. calls ?w'' = calls w @ cs \<and> set cs \<subseteq> inference_calls"
      by (rule exI)
    with s Inr show ?thesis by simp
  qed
qed

lemma evaluator_run_torch:
  "snd (snd (evaluator_run S affinity data ev w)) =
   snd (snd (evaluator_batches S affinity data (evaluator_reset ev) w))"
proof -
  obtain x y z where "evaluator_batches S affinity data (evaluator_reset ev) w = (x, y, z)"
    by (cases "evaluator_batches S affinity data (evaluator_reset ev) w")
  then show ?thesis
    by (simp add: evaluator_run_def split: option.splits)
qed

text \<open>
  C3. The record an evaluation step returns has the fields \<open>pose_log\<close> and \<open>labels\<close>,
  and the fields \<open>affinities_pred\<close> and \<open>affinities\<close> exactly in dual-task mode, where
  it has these four fields and no other; on a batch and a model output of the shape of
  the task mode the step does return a record.
\<close>

theorem evaluation_record_fields:
  "(batch_for affinity b \<and> model_for affinity (forward S (params w) False (grids_of b)) \<longrightarrow>
      (\<exists>out. fst (evaluation_step S affinity b w) = Inr out)) \<and>
   (fst (evaluation_step S affinity b w) = Inr out \<longrightarrow>
      dom out = {''pose_log'', ''labels''} \<union>
                (if affinity then {''affinities_pred'', ''affinities''} else {}))"
proof (intro conjI impI)
  assume a: "batch_for affinity b \<and> model_for affinity (forward S (params w) False (grids_of b))"
  show "\<exists>out. fst (evaluation_step S affinity b w) = Inr out"
  proof (cases affinity)
    case True
    with a obtain g l t where b: "b = Batch3 g l t"
      by (cases b) (simp_all add: batch_for_def)
    with a True obtain x y where "forward S (params w) False g = Pair x y"
      by (cases "forward S (params w) False g") (simp_all add: model_for_def grids_of_def)
    with True b show ?thesis
      by (simp add: eval_defs Let_def)
  next
    case False
    with a obtain g l where b: "b = Batch2 g l"
      by (cases b) (simp_all add: batch_for_def)
    with False show ?thesis
      by (simp add: eval_defs Let_def split_def)
  qed
next
  assume "fst (evaluation_step S affinity b w) = Inr out"
  then show "dom out = {''pose_log'', ''labels''} \<union>
                (if affinity then {''affinities_pred'', ''affinities''} else {})"
    by (auto simp add: eval_defs Let_def split_def split: batch.splits model_out.splits list.splits if_splits)
qed

theorem evaluation_record_fields_witness:
  "(batch_for True (Batch3 [2] [1] [3]) \<and>
    model_for True (forward (example_substrate True) (params example_torch) False
                      (grids_of (Batch3 [2] [1] [3])))) \<and>
   fst (evaluation_step (example_substrate True) True (Batch3 [2] [1] [3]) example_torch) =
     Inr [''pose_log'' \<mapsto> Single [2], ''affinities_pred'' \<mapsto> Single [1],
          ''labels'' \<mapsto> Single [1], ''affinities'' \<mapsto> Single [3]] \<and>
   dom [''pose_log'' \<mapsto> Single [2], ''affinities_pred'' \<mapsto> Single [1],
        ''labels'' \<mapsto> Single [1], ''affinities'' \<mapsto> Single [3]] =
     {''pose_log'', ''labels''} \<union> {''affinities_pred'', ''affinities''} \<and>
   (batch_for False (Batch2 [2] [1]) \<and>
    model_for False (forward (example_substrate False) (params example_torch) False
                       (grids_of (Batch2 [2] [1])))) \<and>
   fst (evaluation_step (example_substrate False) False (Batch2 [2] [1]) example_torch) =
     Inr [''pose_log'' \<mapsto> Single [2], ''labels'' \<mapsto> Single [1]] \<and>
   dom [''pose_log'' \<mapsto> Single [2], ''labels'' \<mapsto> Single [1]] = {''pose_log'', ''labels''} \<union> {}"
proof -
  have t: "fst (evaluation_step (example_substrate True) True (Batch3 [2] [1] [3]) example_torch) =
     Inr [''pose_log'' \<mapsto> Single [2], ''affinities_pred'' \<mapsto> Single [1],
          ''labels'' \<mapsto> Single [1], ''affinities'' \<mapsto> Single [3]]"
    by (simp add: eval_defs example_substrate_def example_torch_def)
  have f: "fst (evaluation_step (example_substrate False) False (Batch2 [2] [1]) example_torch) =
     Inr [''pose_log'' \<mapsto> Single [2], ''labels'' \<mapsto> Single [1]]"
    by (simp add: eval_defs example_substrate_def example_torch_def)
  have h: "batch_for True (Batch3 [2] [1] [3]) \<and>
    model_for True (forward (example_substrate True) (params example_torch) False
                      (grids_of (Batch3 [2] [1] [3]))) \<and>
    batch_for False (Batch2 [2] [1]) \<and>
    model_for False (forward (example_substrate False) (params example_torch) False
                       (grids_of (Batch2 [2] [1])))"
    by (simp add: batch_for_def model_for_def grids_of_def example_substrate_def example_torch_def)
  show ?thesis
    using t f h
      evaluation_record_fields [of True "Batch3 [2] [1] [3]" "example_substrate True" example_torch
        "[''pose_log'' \<mapsto> Single [2], ''affinities_pred'' \<mapsto> Single [1],
          ''labels'' \<mapsto> Single [1], ''affinities'' \<mapsto> Single [3]]"]
      evaluation_record_fields [of False "Batch2 [2] [1]" "example_substrate False" example_torch
        "[''pose_log'' \<mapsto> Single [2], ''labels'' \<mapsto> Single [1]]"]
    by (simp only: simp_thms if_True if_False)
qed

text \<open>
  C10. An evaluation step never changes the model's parameters: it switches the model to
  inference mode, runs the forward pass with gradient tracking disabled and calls nothing
  else; a whole evaluation pass leaves the parameters as they were and makes only such
  calls (no backward pass, no optimizer update).
\<close>

theorem evaluation_never_mutates_parameters:
  "params (snd (evaluation_step S affinity b w)) = params w \<and>
   training_flag (snd (evaluation_step S affinity b w)) = False \<and>
   calls (snd (evaluation_step S affinity b w)) = calls w @ eval_calls affinity b \<and>
   params (snd (snd (evaluator_run S affinity data ev w))) = params w \<and>
   set (drop (length (calls w)) (calls (snd (snd (evaluator_run S affinity data ev w)))))
     \<subseteq> inference_calls"
proof -
  let ?w' = "snd (snd (evaluator_batches S affinity data (evaluator_reset ev) w))"
  from evaluator_batches_calls [of S affinity data "evaluator_reset ev" w]
  obtain cs where cs: "calls ?w' = calls w @ cs" "set cs \<subseteq> inference_calls"
    by blast
  have a: "set (drop (length (calls w)) (calls ?w')) \<subseteq> inference_calls"
    using cs by simp
  have b: "training_flag (snd (evaluation_step S affinity b w)) = False"
    by (simp add: eval_defs Let_def split_def split: batch.splits model_out.splits list.splits)
  have c: "params ?w' = params w"
    using evaluator_batches_frame [of S affinity data "evaluator_reset ev" w] by simp
  have d: "params (snd (evaluation_step S affinity b w)) = params w"
    using evaluation_step_frame [of S affinity b w] by simp
  show ?thesis
    using a b c d evaluation_step_calls [of S affinity b w]
    by (simp only: evaluator_run_torch simp_thms)
qed

lemma evaluator_batches_params_only:
  "params w = params w' \<Longrightarrow>
     fst (evaluator_batches S affinity data ev w) = fst (evaluator_batches S affinity data ev w') \<and>
     fst (snd (evaluator_batches S affinity data ev w)) =
       fst (snd (evaluator_batches S affinity data ev w'))"
proof (induction data arbitrary: ev w w')
  case Nil
  show ?case by simp
next
  case (Cons b bs)
  obtain r v where s: "evaluation_step S affinity b w = (r, v)"
    by (cases "evaluation_step S affinity b w")
  obtain r' v' where s': "evaluation_step S affinity b w' = (r', v')"
    by (cases "evaluation_step S affinity b w'")
  have r: "r' = r"
    using evaluation_step_params_only [OF Cons.prems, of S affinity b] s s' by simp
  have p: "params v = params v'"
    using evaluation_step_frame [of S affinity b w] evaluation_step_frame [of S affinity b w']
      s s' Cons.prems by simp
  show ?case
  proof (cases r)
    case (Inl e)
    with s s' r show ?thesis by simp
  next
    case (Inr out)
    with s s' r Cons.IH [OF p, of "evaluator_update out ev"] show ?thesis by simp
  qed
qed

lemma evaluator_reset_attached:
  "attached ev = attached ev' \<Longrightarrow> evaluator_reset ev = evaluator_reset ev'"
  by (cases ev, cases ev') (simp add: evaluator_reset_def)

lemma evaluator_run_result:
  "evaluator_batches S affinity data (evaluator_reset ev) w = (x, y, z) \<Longrightarrow>
     fst (evaluator_run S affinity data ev w) = x \<and>
     ev_metrics (fst (snd (evaluator_run S affinity data ev w))) =
       (case x of Some _ \<Rightarrow> ev_metrics y | None \<Rightarrow> ev_metrics (evaluator_complete y))"
  by (simp add: evaluator_run_def split: option.splits)

text \<open>
  C7. Two evaluation passes over the same dataset with the same model parameters end
  with the same outcome and the same metrics mapping, whatever aggregate state and
  metrics mapping the evaluator held before each pass: the pass starts from the reset
  state.
\<close>

theorem evaluation_passes_independent:
  assumes "attached ev = attached ev'" and "params w = params w'"
  shows "fst (evaluator_run S affinity data ev w) = fst (evaluator_run S affinity data ev' w') \<and>
         ev_metrics (fst (snd (evaluator_run S affinity data ev w))) =
         ev_metrics (fst (snd (evaluator_run S affinity data ev' w')))"
proof -
  define r where "r = evaluator_reset ev"
  have e: "evaluator_reset ev' = r"
    using evaluator_reset_attached [OF assms(1)] r_def by simp
  obtain x y z where a: "evaluator_batches S affinity data r w = (x, y, z)"
    by (cases "evaluator_batches S affinity data r w")
  obtain x' y' z' where b: "evaluator_batches S affinity data r w' = (x', y', z')"
    by (cases "evaluator_batches S affinity data r w'")
  have xy: "x' = x" "y' = y"
    using evaluator_batches_params_only [OF assms(2), of S affinity data r] a b by simp_all
  have 1: "fst (evaluator_run S affinity data ev w) = x \<and>
     ev_metrics (fst (snd (evaluator_run S affinity data ev w))) =
       (case x of Some _ \<Rightarrow> ev_metrics y | None \<Rightarrow> ev_metrics (evaluator_complete y))"
    using evaluator_run_result [of S affinity data ev w x y z] a r_def by simp
  have 2: "fst (evaluator_run S affinity data ev' w') = x \<and>
     ev_metrics (fst (snd (evaluator_run S affinity data ev' w'))) =
       (case x of Some _ \<Rightarrow> ev_metrics y | None \<Rightarrow> ev_metrics (evaluator_complete y))"
proof -
    have "evaluator_batches S affinity data (evaluator_reset ev') w' = (x, y, z')"
      using b e xy by simp
    then show ?thesis by (rule evaluator_run_result)
  qed
  from 1 2 show ?thesis by simp
qed

theorem evaluation_passes_independent_witness:
  "attached example_evaluator =
     attached (example_evaluator\<lparr>accs := [[5]], ev_metrics := [(''Batches'', 7)]\<rparr>) \<and>
   params example_torch = params (example_torch\<lparr>training_flag := True\<rparr>) \<and>
   fst (evaluator_run (example_substrate False) False [Batch2 [2] [1]] example_evaluator
          example_torch) = None \<and>
   fst (evaluator_run (example_substrate False) False [Batch2 [2] [1]]
          (example_evaluator\<lparr>accs := [[5]], ev_metrics := [(''Batches'', 7)]\<rparr>)
          (example_torch\<lparr>training_flag := True\<rparr>)) = None \<and>
   ev_metrics (fst (snd (evaluator_run (example_substrate False) False [Batch2 [2] [1]]
          example_evaluator example_torch))) = [(''Batches'', 1)] \<and>
   ev_metrics (fst (snd (evaluator_run (example_substrate False) False [Batch2 [2] [1]]
          (example_evaluator\<lparr>accs := [[5]], ev_metrics := [(''Batches'', 7)]\<rparr>)
          (example_torch\<lparr>training_flag := True\<rparr>)))) = [(''Batches'', 1)]"
proof -
  have a: "attached example_evaluator =
     attached (example_evaluator\<lparr>accs := [[5]], ev_metrics := [(''Batches'', 7)]\<rparr>)"
    by simp
  have p: "params example_torch = params (example_torch\<lparr>training_flag := True\<rparr>)"
    by simp
  have r: "fst (evaluator_run (example_substrate False) False [Batch2 [2] [1]] example_evaluator
          example_torch) = None \<and>
     ev_metrics (fst (snd (evaluator_run (example_substrate False) False [Batch2 [2] [1]]
          example_evaluator example_torch))) = [(''Batches'', 1)]"
    by (simp add: evaluator_run_def evaluator_reset_def evaluator_update_def
        evaluator_complete_def example_evaluator_def setup_evaluator_def example_metric_def
        eval_defs example_substrate_def example_torch_def)
  show ?thesis
    using a p r evaluation_passes_independent [OF a p, of "example_substrate False" False
        "[Batch2 [2] [1]]"]
    by simp
qed

section \<open>Properties of the scheduler handler\<close>

text \<open>
  C8. The monitored quantity is the aggregated pose loss plus the aggregated affinity
  loss when the metrics mapping has one; when it has none the contribution is zero and
  no missing-key error is raised.
\<close>

theorem monitored_loss_tolerates_missing_affinity:
  assumes "map_of mts ''Loss (pose)'' = Some p"
  shows "monitored_loss mts =
           Inr (p + (case map_of mts ''Loss (affinity)'' of None \<Rightarrow> 0 | Some a \<Rightarrow> a))"
  using assms by (simp add: monitored_loss_def split: option.splits)

theorem monitored_loss_tolerates_missing_affinity_witness:
  "map_of [(''Loss (pose)'', 2 :: real)] ''Loss (pose)'' = Some 2 \<and>
   monitored_loss [(''Loss (pose)'', 2)] = Inr 2 \<and>
   map_of [(''Loss (pose)'', 2 :: real), (''Loss (affinity)'', 3)] ''Loss (pose)'' = Some 2 \<and>
   monitored_loss [(''Loss (pose)'', 2), (''Loss (affinity)'', 3)] = Inr 5"
  using monitored_loss_tolerates_missing_affinity [of "[(''Loss (pose)'', 2)]" 2]
        monitored_loss_tolerates_missing_affinity
          [of "[(''Loss (pose)'', 2), (''Loss (affinity)'', 3)]" 2]
  by simp


section \<open>The assertion on the parameter groups\<close>

lemma evaluator_run_param_groups:
  "param_groups (snd (snd (evaluator_run S affinity data ev w))) = param_groups w"
  using evaluator_batches_frame [of S affinity data "evaluator_reset ev" w]
  by (simp add: evaluator_run_torch)

lemma plateau_step_length: "length (snd (plateau_step m sch lrs)) = length lrs"
  by (simp add: plateau_step_def Let_def)

lemma log_training_results_static:
  "\<not> lr_dynamic a \<Longrightarrow>
     fst (log_training_results S a data w) =
       fst (evaluator_run S (affinity_pos a \<noteq> None) data (evaluator_st w) (torch_st w))"
proof -
  assume d: "\<not> lr_dynamic a"
  obtain x y z where r: "evaluator_run S (affinity_pos a \<noteq> None) data (evaluator_st w) (torch_st w) = (x, y, z)"
    by (cases "evaluator_run S (affinity_pos a \<noteq> None) data (evaluator_st w) (torch_st w)")
  with d show ?thesis
    by (cases x) (simp_all add: log_training_results_def Let_def)
qed

lemma log_training_results_dynamic:
  assumes "lr_dynamic a"
    and "evaluator_run S (affinity_pos a \<noteq> None) data (evaluator_st w) (torch_st w) = (None, ev, t)"
    and "monitored_loss (ev_metrics ev) = Inr loss"
  shows "fst (log_training_results S a data w) =
           (if length (param_groups (torch_st w)) = 1 then None else Some AssertionError) \<and>
         param_groups (torch_st (snd (log_training_results S a data w))) =
           snd (plateau_step loss (scheduler_st w) (param_groups (torch_st w))) \<and>
         scheduler_st (snd (log_training_results S a data w)) =
           fst (plateau_step loss (scheduler_st w) (param_groups (torch_st w)))"
proof -
  have g: "param_groups t = param_groups (torch_st w)"
    using evaluator_run_param_groups [of S "affinity_pos a \<noteq> None" data "evaluator_st w" "torch_st w"]
      assms(2) by simp
  obtain sch lrs where p: "plateau_step loss (scheduler_st w) (param_groups (torch_st w)) = (sch, lrs)"
    by (cases "plateau_step loss (scheduler_st w) (param_groups (torch_st w))")
  have l: "length lrs = length (param_groups (torch_st w))"
    using plateau_step_length [of loss "scheduler_st w" "param_groups (torch_st w)"] p by simp
  show ?thesis
    using assms g p l by (simp add: log_training_results_def Let_def)
qed















section \<open>Startup\<close>

lemma checkpoints_in_add_file: "checkpoints_in (add_file name files) = checkpoints_in files"
  by (induction files) (simp_all add: checkpoints_in_def add_file_def)

text \<open>
  C5. A run started against an output directory that already holds a checkpoint fails
  when the checkpoint handler is constructed: \<open>training\<close> returns an error, the trainer
  has completed no epoch and no training step has called the library.
\<close>

theorem existing_checkpoint_fails_at_startup:
  assumes "checkpoints_in (files0 E) \<noteq> []"
  shows "fst (training S a E) \<noteq> None \<and>
         trainer_epoch (snd (training S a E)) = 0 \<and>
         calls (torch_st (snd (training S a E))) = []"
  using assms
  by (simp add: training_def checkpoint_create_def checkpoints_in_add_file Let_def)

theorem existing_checkpoint_fails_at_startup_witness:
  "checkpoints_in (files0 (example_env\<lparr>files0 := [Checkpoint_file 3]\<rparr>)) \<noteq> [] \<and>
   fst (training (example_substrate False) example_args
          (example_env\<lparr>files0 := [Checkpoint_file 3]\<rparr>)) = Some ValueError \<and>
   trainer_epoch (snd (training (example_substrate False) example_args
          (example_env\<lparr>files0 := [Checkpoint_file 3]\<rparr>))) = 0 \<and>
   calls (torch_st (snd (training (example_substrate False) example_args
          (example_env\<lparr>files0 := [Checkpoint_file 3]\<rparr>)))) = []"
proof -
  have h: "checkpoints_in (files0 (example_env\<lparr>files0 := [Checkpoint_file 3]\<rparr>)) \<noteq> []"
    by (simp add: checkpoints_in_def)
  have v: "fst (training (example_substrate False) example_args
          (example_env\<lparr>files0 := [Checkpoint_file 3]\<rparr>)) = Some ValueError"
    by (simp add: training_def checkpoint_create_def checkpoints_in_def add_file_def
        example_env_def example_args_def Let_def)
  show ?thesis
    using h v existing_checkpoint_fails_at_startup [OF h, of "example_substrate False" example_args]
    by simp
qed


section \<open>Properties of the adaptive learning rate\<close>

lemma plateau_step_settings:
  "pl_mode (fst (plateau_step m sch lrs)) = pl_mode sch \<and>
   pl_factor (fst (plateau_step m sch lrs)) = pl_factor sch \<and>
   pl_patience (fst (plateau_step m sch lrs)) = pl_patience sch \<and>
   pl_min_lr (fst (plateau_step m sch lrs)) = pl_min_lr sch"
  by (simp add: plateau_step_def Let_def)

lemma plateau_step_bad_wait:
  assumes "\<not> is_better (pl_mode sch) m (pl_best sch)"
    and "int (pl_num_bad sch) + 1 \<le> pl_patience sch"
  shows "plateau_step m sch lrs = (sch\<lparr>pl_num_bad := pl_num_bad sch + 1\<rparr>, lrs)"
  using assms by (simp add: plateau_step_def Let_def)

lemma plateau_step_bad_reduce:
  assumes "\<not> is_better (pl_mode sch) m (pl_best sch)"
    and "pl_patience sch < int (pl_num_bad sch) + 1"
  shows "plateau_step m sch lrs =
           (sch\<lparr>pl_num_bad := 0\<rparr>, map (\<lambda>lr. max (lr * pl_factor sch) (pl_min_lr sch)) lrs)"
  using assms by (simp add: plateau_step_def Let_def)

lemma plateau_step_better:
  assumes "is_better (pl_mode sch) m (pl_best sch)" and "0 \<le> pl_patience sch"
  shows "plateau_step m sch lrs = (sch\<lparr>pl_best := Some m, pl_num_bad := 0\<rparr>, lrs)"
  using assms by (simp add: plateau_step_def Let_def)

lemma plateau_steps_append:
  "plateau_steps (xs @ ys) sch lrs =
     plateau_steps ys (fst (plateau_steps xs sch lrs)) (snd (plateau_steps xs sch lrs))"
  by (induction xs arbitrary: sch lrs) (simp_all split: prod.splits)

lemma plateau_steps_bad_wait:
  assumes "\<forall>m \<in> set ms. \<not> is_better (pl_mode sch) m (pl_best sch)"
    and "int (pl_num_bad sch) + int (length ms) \<le> pl_patience sch"
  shows "plateau_steps ms sch lrs = (sch\<lparr>pl_num_bad := pl_num_bad sch + length ms\<rparr>, lrs)"
  using assms
proof (induction ms arbitrary: sch)
  case Nil
  show ?case by simp
next
  case (Cons m ms)
  let ?s = "sch\<lparr>pl_num_bad := pl_num_bad sch + 1\<rparr>"
  have 1: "plateau_step m sch lrs = (?s, lrs)"
    using Cons.prems by (intro plateau_step_bad_wait) simp_all
  have 2: "plateau_steps ms ?s lrs = (?s\<lparr>pl_num_bad := pl_num_bad ?s + length ms\<rparr>, lrs)"
    using Cons.prems by (intro Cons.IH) simp_all
  show ?case using 1 2 by simp
qed

lemma at_floor_fixed:
  assumes "0 \<le> (mn :: real)" and "f \<le> 1" and "\<forall>lr \<in> set lrs. lr = mn"
  shows "map (\<lambda>lr. max (lr * f) mn) lrs = lrs"
proof -
  have "mn * f \<le> mn"
    using mult_left_mono [OF assms(2) assms(1)] by simp
  then have m: "max (mn * f) mn = mn" by simp
  show ?thesis
  proof (rule map_idI)
    fix x assume "x \<in> set lrs"
    with assms(3) have "x = mn" by simp
    with m show "max (x * f) mn = x" by simp
  qed
qed

lemma plateau_step_at_floor:
  assumes "0 \<le> pl_min_lr sch" and "pl_factor sch \<le> 1" and "\<forall>lr \<in> set lrs. lr = pl_min_lr sch"
  shows "snd (plateau_step m sch lrs) = lrs"
  using at_floor_fixed [OF assms] by (simp add: plateau_step_def Let_def)

lemma plateau_steps_at_floor:
  assumes "0 \<le> pl_min_lr sch" and "pl_factor sch \<le> 1" and "\<forall>lr \<in> set lrs. lr = pl_min_lr sch"
  shows "snd (plateau_steps ms sch lrs) = lrs"
  using assms
proof (induction ms arbitrary: sch)
  case Nil
  show ?case by simp
next
  case (Cons m ms)
  obtain s l where p: "plateau_step m sch lrs = (s, l)"
    by (cases "plateau_step m sch lrs")
  have l: "l = lrs"
    using plateau_step_at_floor [OF Cons.prems, of m] p by simp
  have s: "pl_min_lr s = pl_min_lr sch" "pl_factor s = pl_factor sch"
    using plateau_step_settings [of m sch lrs] p by simp_all
  have "snd (plateau_steps ms s lrs) = lrs"
    using Cons.prems s by (intro Cons.IH) simp_all
  with p l show ?case by simp
qed

text \<open>
  What the scheduler that \<open>training\<close> constructs does (comparison mode \<open>max\<close>), in any
  state of its best value and count: while the monitored values do not exceed the best
  value and the count has not passed the patience, the learning rates are unchanged; the
  next value that does not exceed the best sets every rate to \<open>rate * lr_reduce\<close>,
  clamped below at \<open>lr_min\<close>. With a non-negative floor and a factor of at most one,
  rates at the floor stay there whatever values follow.
\<close>

lemma not_larger_reduces_rate_after_patience:
  assumes "sch = (torch_scheduler a)\<lparr>pl_best := Some best, pl_num_bad := k\<rparr>"
    and "\<forall>m \<in> set ms. m \<le> best"
    and "m \<le> best"
    and "int k + int (length ms) = lr_patience a"
  shows "snd (plateau_steps ms sch lrs) = lrs \<and>
         snd (plateau_steps (ms @ [m]) sch lrs) = reduced a lrs \<and>
         (0 \<le> lr_min a \<and> lr_reduce a \<le> 1 \<and> (\<forall>lr \<in> set lrs. lr = lr_min a) \<longrightarrow>
            snd (plateau_steps xs sch lrs) = lrs)"
proof -
  have bad: "\<forall>x \<in> set ms. \<not> is_better (pl_mode sch) x (pl_best sch)"
    using assms(1,2) by (auto simp add: torch_scheduler_def is_better_def)
  have badm: "\<not> is_better (pl_mode sch) m (pl_best sch)"
    using assms(1,3) by (simp add: torch_scheduler_def is_better_def)
  have k: "int (pl_num_bad sch) + int (length ms) \<le> pl_patience sch"
    using assms(1,4) by (simp add: torch_scheduler_def)
  let ?s = "sch\<lparr>pl_num_bad := pl_num_bad sch + length ms\<rparr>"
  have w: "plateau_steps ms sch lrs = (?s, lrs)"
    using bad k by (rule plateau_steps_bad_wait)
  have "plateau_step m ?s lrs =
          (?s\<lparr>pl_num_bad := 0\<rparr>, map (\<lambda>lr. max (lr * pl_factor ?s) (pl_min_lr ?s)) lrs)"
    using badm assms(1,4) by (intro plateau_step_bad_reduce) (simp_all add: torch_scheduler_def)
  then have r: "snd (plateau_steps (ms @ [m]) sch lrs) = reduced a lrs"
    using w assms(1) by (simp add: plateau_steps_append reduced_def torch_scheduler_def)
  have f: "0 \<le> lr_min a \<and> lr_reduce a \<le> 1 \<and> (\<forall>lr \<in> set lrs. lr = lr_min a) \<longrightarrow>
            snd (plateau_steps xs sch lrs) = lrs"
  proof
    assume h: "0 \<le> lr_min a \<and> lr_reduce a \<le> 1 \<and> (\<forall>lr \<in> set lrs. lr = lr_min a)"
    show "snd (plateau_steps xs sch lrs) = lrs"
      using h assms(1) by (intro plateau_steps_at_floor) (simp_all add: torch_scheduler_def)
  qed
  from w r f show ?thesis by simp
qed

text \<open>
  In the configured mode a monitored loss larger than the best so far counts as an
  improvement: it becomes the best value and the count starts again.
\<close>

lemma larger_loss_counts_as_improvement:
  assumes "sch = (torch_scheduler a)\<lparr>pl_best := Some best, pl_num_bad := k\<rparr>"
    and "best < m" and "0 \<le> lr_patience a"
  shows "plateau_step m sch lrs = (sch\<lparr>pl_best := Some m, pl_num_bad := 0\<rparr>, lrs)"
  using assms by (intro plateau_step_better) (simp_all add: torch_scheduler_def is_better_def)

text \<open>
  C2. In adaptive-rate mode the handler feeds the monitored loss to the scheduler that
  \<open>training\<close> constructs in comparison mode \<open>max\<close>. A cadence check whose loss is
  larger than the best value seen, that is a loss that failed to improve, leaves the
  learning rates as they are and starts the count again, whatever the patience; a check
  whose loss is not larger than the best value, once the count has reached the patience,
  reduces every rate to \<open>rate * lr_reduce\<close> clamped at \<open>lr_min\<close>. So the rate is
  reduced when the loss stops rising, not when it stops falling.
\<close>

theorem rising_loss_keeps_rate:
  assumes "lr_dynamic a" and "0 \<le> lr_patience a"
    and "scheduler_st w = (torch_scheduler a)\<lparr>pl_best := Some best, pl_num_bad := k\<rparr>"
    and "fst (evaluator_run S (affinity_pos a \<noteq> None) data (evaluator_st w) (torch_st w)) = None"
    and "monitored_loss (ev_metrics (fst (snd
           (evaluator_run S (affinity_pos a \<noteq> None) data (evaluator_st w) (torch_st w))))) =
         Inr loss"
  shows "(best < loss \<longrightarrow>
            param_groups (torch_st (snd (log_training_results S a data w))) =
              param_groups (torch_st w) \<and>
            scheduler_st (snd (log_training_results S a data w)) =
              (scheduler_st w)\<lparr>pl_best := Some loss, pl_num_bad := 0\<rparr>) \<and>
         (loss \<le> best \<and> lr_patience a \<le> int k \<longrightarrow>
            param_groups (torch_st (snd (log_training_results S a data w))) =
              reduced a (param_groups (torch_st w)))"
proof -
  obtain x ev t where r:
    "evaluator_run S (affinity_pos a \<noteq> None) data (evaluator_st w) (torch_st w) = (x, ev, t)"
    by (cases "evaluator_run S (affinity_pos a \<noteq> None) data (evaluator_st w) (torch_st w)")
  with assms(4) have x: "x = None" by simp
  from r assms(5) have m: "monitored_loss (ev_metrics ev) = Inr loss" by simp
  note h = log_training_results_dynamic [OF assms(1) r [unfolded x] m]
  have up: "plateau_step loss (scheduler_st w) (param_groups (torch_st w)) =
              ((scheduler_st w)\<lparr>pl_best := Some loss, pl_num_bad := 0\<rparr>, param_groups (torch_st w))"
    if "best < loss"
    using that assms(2,3)
    by (intro plateau_step_better) (simp_all add: torch_scheduler_def is_better_def)
  have down: "plateau_step loss (scheduler_st w) (param_groups (torch_st w)) =
              ((scheduler_st w)\<lparr>pl_num_bad := 0\<rparr>, reduced a (param_groups (torch_st w)))"
    if "loss \<le> best" and "lr_patience a \<le> int k"
  proof -
    have "plateau_step loss (scheduler_st w) (param_groups (torch_st w)) =
           ((scheduler_st w)\<lparr>pl_num_bad := 0\<rparr>,
            map (\<lambda>lr. max (lr * pl_factor (scheduler_st w)) (pl_min_lr (scheduler_st w)))
              (param_groups (torch_st w)))"
      using that assms(3)
      by (intro plateau_step_bad_reduce) (simp_all add: torch_scheduler_def is_better_def)
    then show ?thesis using assms(3) by (simp add: reduced_def torch_scheduler_def)
  qed
  from h up down show ?thesis by simp
qed

lemma checked_world_pass:
  "evaluator_run (example_substrate False) (affinity_pos adaptive_args \<noteq> None)
     [Batch2 [2] [1]] (evaluator_st (checked_world best)) (torch_st (checked_world best)) =
   (None,
    \<lparr>attached = [(''Loss (pose)'', example_loss_metric)], accs = [[2]],
     ev_metrics = [(''Loss (pose)'', 2)]\<rparr>,
    snd (snd (evaluator_run (example_substrate False) (affinity_pos adaptive_args \<noteq> None)
     [Batch2 [2] [1]] (evaluator_st (checked_world best)) (torch_st (checked_world best)))))"
  by (simp add: evaluator_run_def evaluator_reset_def
      evaluator_update_def evaluator_complete_def setup_evaluator_def example_loss_metric_def
      eval_defs example_substrate_def example_torch_def checked_world_def adaptive_args_def
      example_args_def Let_def)

theorem rising_loss_keeps_rate_witness:
  "lr_dynamic adaptive_args \<and> 0 \<le> lr_patience adaptive_args \<and>
   scheduler_st (checked_world 1) =
     (torch_scheduler adaptive_args)\<lparr>pl_best := Some 1, pl_num_bad := 0\<rparr> \<and>
   scheduler_st (checked_world 3) =
     (torch_scheduler adaptive_args)\<lparr>pl_best := Some 3, pl_num_bad := 0\<rparr> \<and>
   fst (evaluator_run (example_substrate False) (affinity_pos adaptive_args \<noteq> None)
     [Batch2 [2] [1]] (evaluator_st (checked_world 1)) (torch_st (checked_world 1))) = None \<and>
   monitored_loss (ev_metrics (fst (snd (evaluator_run (example_substrate False)
     (affinity_pos adaptive_args \<noteq> None) [Batch2 [2] [1]] (evaluator_st (checked_world 1))
     (torch_st (checked_world 1)))))) = Inr 2 \<and>
   fst (evaluator_run (example_substrate False) (affinity_pos adaptive_args \<noteq> None)
     [Batch2 [2] [1]] (evaluator_st (checked_world 3)) (torch_st (checked_world 3))) = None \<and>
   monitored_loss (ev_metrics (fst (snd (evaluator_run (example_substrate False)
     (affinity_pos adaptive_args \<noteq> None) [Batch2 [2] [1]] (evaluator_st (checked_world 3))
     (torch_st (checked_world 3)))))) = Inr 2 \<and>
   (1 :: real) < 2 \<and> (2 :: real) \<le> 3 \<and> lr_patience adaptive_args \<le> int 0 \<and>
   param_groups (torch_st (checked_world 1)) = [1 / 100] \<and>
   param_groups (torch_st (checked_world 3)) = [1 / 100] \<and>
   reduced adaptive_args [1 / 100] = [1 / 1000] \<and>
   param_groups (torch_st (snd (log_training_results (example_substrate False) adaptive_args
     [Batch2 [2] [1]] (checked_world 1)))) = [1 / 100] \<and>
   param_groups (torch_st (snd (log_training_results (example_substrate False) adaptive_args
     [Batch2 [2] [1]] (checked_world 3)))) = [1 / 1000]"
proof -
  have d: "lr_dynamic adaptive_args" and p: "0 \<le> lr_patience adaptive_args"
    and p0: "lr_patience adaptive_args \<le> int 0"
    by (simp_all add: adaptive_args_def)
  have s: "scheduler_st (checked_world b) =
     (torch_scheduler adaptive_args)\<lparr>pl_best := Some b, pl_num_bad := 0\<rparr>" for b
    by (simp add: checked_world_def)
  have e: "fst (evaluator_run (example_substrate False) (affinity_pos adaptive_args \<noteq> None)
     [Batch2 [2] [1]] (evaluator_st (checked_world b)) (torch_st (checked_world b))) = None" for b
    by (subst checked_world_pass) simp
  have m: "monitored_loss (ev_metrics (fst (snd (evaluator_run (example_substrate False)
     (affinity_pos adaptive_args \<noteq> None) [Batch2 [2] [1]] (evaluator_st (checked_world b))
     (torch_st (checked_world b)))))) = Inr 2" for b
    by (subst checked_world_pass) (simp add: monitored_loss_def)
  have g: "param_groups (torch_st (checked_world b)) = [1 / 100]" for b
    by (simp add: checked_world_def example_torch_def)
  have rd: "reduced adaptive_args [1 / 100] = [1 / 1000]"
    by (simp add: reduced_def adaptive_args_def example_args_def)
  show ?thesis
    using d p p0 s e m g rd
      rising_loss_keeps_rate [OF d p s [of 1] e [of 1] m [of 1]]
      rising_loss_keeps_rate [OF d p s [of 3] e [of 3] m [of 3]]
    by simp
qed

end
